theory Spec2Isabelle
  imports Main "HOL-Library.Word" "HOL-Library.Sublist"
begin

section \<open>The chat screen: data model\<close>

text \<open>
  The chat screen is a React function component. Its state is five \<open>useState\<close> cells; its
  behaviour is three event handlers (\<open>handleInitialQuery\<close>, \<open>handleSubmit\<close>, the input's
  \<open>onChange\<close>) and one effect. The embedding below follows the component line by line:
  a state cell is a record field, a setter call is a record update, a thrown value is the
  left summand of the outcome of the network call, and the wall clock read by
  \<open>Date.now()\<close> is an argument.
\<close>

subsection \<open>Strings and numbers of the host language\<close>

text \<open>
  A string of the host language is a sequence of 16-bit code units. ASCII literals of the
  source are written through \<open>ascii\<close>.
\<close>

type_synonym code_unit = "16 word"
type_synonym jsstring = "code_unit list"

definition ascii :: "string \<Rightarrow> jsstring" where
  "ascii cs = map of_char cs"

text \<open>
  \<open>String.prototype.trim\<close> removes, at both ends, the code units that are WhiteSpace or
  LineTerminator: TAB, LF, VT, FF, CR, SPACE, NBSP, U+1680, U+2000 to U+200A, U+2028,
  U+2029, U+202F, U+205F, U+3000 and the byte order mark U+FEFF. All of them are single
  code units.
\<close>

definition is_whitespace :: "code_unit \<Rightarrow> bool" where
  "is_whitespace c \<longleftrightarrow>
     c = 0x0009 \<or> c = 0x000A \<or> c = 0x000B \<or> c = 0x000C \<or> c = 0x000D \<or> c = 0x0020 \<or>
     c = 0x00A0 \<or> c = 0x1680 \<or> (0x2000 \<le> c \<and> c \<le> 0x200A) \<or> c = 0x2028 \<or>
     c = 0x2029 \<or> c = 0x202F \<or> c = 0x205F \<or> c = 0x3000 \<or> c = 0xFEFF"

definition trim :: "jsstring \<Rightarrow> jsstring" where
  "trim s = rev (dropWhile is_whitespace (rev (dropWhile is_whitespace s)))"

text \<open>
  Truthiness of a string, as \<open>!s\<close>, \<open>s || d\<close> and \<open>if (s)\<close> test it: only the empty string
  is falsy.
\<close>

definition truthy :: "jsstring \<Rightarrow> bool" where
  "truthy s \<longleftrightarrow> s \<noteq> []"

text \<open>
  Numbers. The component reads two kinds of number: the milliseconds of \<open>Date.now()\<close> and
  the display number of a citation. Both are integers, and an integer of magnitude below
  \<open>10^21\<close> is rendered by \<open>Number.prototype.toString\<close> and by a template literal as its
  decimal digits, with a leading minus sign when negative. From \<open>10^21\<close> on the host
  language switches to exponent notation, which \<open>toString\<close> below does not follow: it
  stands for the code only below that bound. Every reading of the clock is below it
  (at most \<open>8.64 * 10^15\<close> in magnitude); a statement about the rendering of a citation's
  number carries the bound as a hypothesis.
\<close>

definition digit :: "nat \<Rightarrow> code_unit" where
  "digit d = of_nat (48 + d)"

fun digits :: "nat \<Rightarrow> jsstring" where
  "digits n = (if n < 10 then [digit n] else digits (n div 10) @ [digit (n mod 10)])"

declare digits.simps [simp del]

definition toString :: "int \<Rightarrow> jsstring" where
  "toString n = (if n < 0 then ascii ''-'' @ digits (nat (- n)) else digits (nat n))"

subsection \<open>Messages, sources, citations\<close>

text \<open>
  \<open>interface Source\<close> and \<open>interface Message\<close>. The field \<open>id\<close> of a message is \<open>id_m\<close> and
  its field \<open>type\<close> is \<open>type_m\<close> here; the optional field \<open>sources\<close> is an option.
\<close>

datatype message_type = user | assistant | error

record Source =
  title :: jsstring
  url :: jsstring
  site :: jsstring
  number :: int

record Message =
  id_m :: jsstring
  type_m :: message_type
  content :: jsstring
  sources :: "Source list option"

text \<open>
  The response of the generate operation, \<open>{conversation_id, answer, citations}\<close>, each
  citation \<open>{number, title?, url}\<close>. The fields of a citation carry the suffix \<open>_c\<close>.
\<close>

record Citation =
  number_c :: int
  title_c :: "jsstring option"
  url_c :: jsstring

record Response =
  conversation_id :: jsstring
  answer :: jsstring
  citations :: "Citation list"

text \<open>
  What a failed call throws, by the first \<open>instanceof\<close> test of \<open>handleError\<close> that it
  passes: an \<open>APIError\<close>, a \<open>NetworkError\<close>, any other \<open>Error\<close> (each with its \<open>message\<close>), or a
  value that is no \<open>Error\<close> at all.
\<close>

datatype thrown = APIError jsstring | NetworkError jsstring | Error jsstring | NonError

type_synonym outcome = "thrown + Response"

text \<open>
  The two shapes of call the component makes: \<open>api.generate({ query })\<close> and
  \<open>api.generate({ query }, conversationId)\<close>, the second argument being null or a string.
\<close>

datatype generate_call =
  Generate jsstring
| GenerateWith jsstring "jsstring option"

fun query_of :: "generate_call \<Rightarrow> jsstring" where
  "query_of (Generate q) = q"
| "query_of (GenerateWith q c) = q"


subsection \<open>The state of the component\<close>

record chat_state =
  messages :: "Message list"
  inputValue :: jsstring
  conversationId :: "jsstring option"
  loading :: bool
  error_s :: "jsstring option"

text \<open>The initial values of the five \<open>useState\<close> cells.\<close>

definition init :: chat_state where
  "init = \<lparr>messages = [], inputValue = [], conversationId = None, loading = False,
           error_s = None\<rparr>"

text \<open>
  The readings of \<open>Date.now()\<close> during one continuation, in the order they are taken: the
  success branch reads the clock twice, the \<open>catch\<close> branch once (the first component).
\<close>

type_synonym clock = "int \<times> int"

section \<open>The handlers\<close>

text \<open>\<open>handleError\<close>: classify the thrown value, store the message, return it.\<close>

definition handleError :: "thrown \<Rightarrow> chat_state \<Rightarrow> jsstring \<times> chat_state" where
  "handleError e s =
     (let errorMessage =
        (case e of
           APIError m \<Rightarrow> ascii ''API Error: '' @ m
         | NetworkError m \<Rightarrow> ascii ''Network Error: '' @ m
         | Error m \<Rightarrow> m
         | NonError \<Rightarrow> ascii ''An unexpected error occurred'')
      in (errorMessage, s\<lparr>error_s := Some errorMessage\<rparr>))"

text \<open>
  The function mapped over \<open>response.citations\<close>, the same in both handlers:
  \<open>title: citation.title || `Source ${citation.number}`\<close>, so an absent title and an empty
  one both take the default.
\<close>

definition to_source :: "Citation \<Rightarrow> Source" where
  "to_source citation =
     \<lparr>title = (case title_c citation of
                 Some t \<Rightarrow> if truthy t then t else ascii ''Source '' @ toString (number_c citation)
               | None \<Rightarrow> ascii ''Source '' @ toString (number_c citation)),
      url = url_c citation,
      site = ascii ''AsiaNxt'',
      number = number_c citation\<rparr>"

definition userMessage :: "int \<Rightarrow> jsstring \<Rightarrow> Message" where
  "userMessage now q = \<lparr>id_m = toString now, type_m = user, content = q, sources = None\<rparr>"

definition aiMessage :: "int \<Rightarrow> Response \<Rightarrow> Message" where
  "aiMessage now response =
     \<lparr>id_m = toString (now + 1), type_m = assistant, content = answer response,
      sources = Some (map to_source (citations response))\<rparr>"

definition errorMsg :: "int \<Rightarrow> jsstring \<Rightarrow> Message" where
  "errorMsg now errorMessage =
     \<lparr>id_m = toString now, type_m = error, content = errorMessage, sources = None\<rparr>"

subsection \<open>handleInitialQuery\<close>

text \<open>
  An async handler runs in two parts. The part before \<open>await\<close> sets the flags and issues the
  call; the continuation runs when the call settles, on the state the component has then.
  \<open>handleInitialQuery\<close> has no guard, passes no conversation identifier, and replaces the
  transcript.
\<close>

definition handleInitialQuery_begin :: "jsstring \<Rightarrow> chat_state \<Rightarrow> generate_call \<times> chat_state" where
  "handleInitialQuery_begin query s = (Generate query, s\<lparr>loading := True, error_s := None\<rparr>)"

definition handleInitialQuery_resume :: "jsstring \<Rightarrow> outcome \<Rightarrow> clock \<Rightarrow> chat_state \<Rightarrow> chat_state" where
  "handleInitialQuery_resume query out clk s =
     (case out of
        Inr response \<Rightarrow>
          s\<lparr>conversationId := Some (conversation_id response),
            messages := [userMessage (fst clk) query, aiMessage (snd clk) response],
            loading := False\<rparr>
      | Inl e \<Rightarrow>
          (case handleError e s of
             (errorMessage, s1) \<Rightarrow>
               s1\<lparr>messages := [errorMsg (fst clk) errorMessage], loading := False\<rparr>))"

definition handleInitialQuery :: "jsstring \<Rightarrow> chat_state \<Rightarrow> outcome \<Rightarrow> clock \<Rightarrow> generate_call option \<times> chat_state" where
  "handleInitialQuery query s out clk =
     (case handleInitialQuery_begin query s of
        (call, s1) \<Rightarrow> (Some call, handleInitialQuery_resume query out clk s1))"

text \<open>
  The effect on \<open>location.state\<close>: it runs on mount and whenever the navigation state
  changes, and sends the initial query when there is one and it is truthy.
\<close>

definition onLocationState :: "jsstring option \<Rightarrow> chat_state \<Rightarrow> outcome \<Rightarrow> clock \<Rightarrow> generate_call option \<times> chat_state" where
  "onLocationState initialQuery s out clk =
     (case initialQuery of
        Some q \<Rightarrow> if truthy q then handleInitialQuery q s out clk else (None, s)
      | None \<Rightarrow> (None, s))"

subsection \<open>handleSubmit\<close>

text \<open>
  The guard \<open>if (!inputValue.trim() || loading) return\<close>, then the flags and the call with the
  stored conversation identifier. \<open>None\<close> is the early return: no call, no state change.
\<close>

definition handleSubmit_begin :: "chat_state \<Rightarrow> (generate_call \<times> chat_state) option" where
  "handleSubmit_begin s =
     (if \<not> truthy (trim (inputValue s)) \<or> loading s then None
      else Some (GenerateWith (inputValue s) (conversationId s),
                 s\<lparr>loading := True, error_s := None\<rparr>))"

text \<open>
  The continuation. Its first argument is the \<open>inputValue\<close> the handler closed over; the
  transcript is updated functionally (\<open>prev => [...prev, ...]\<close>), so on the state at the time of
  the update.
\<close>

definition handleSubmit_resume :: "jsstring \<Rightarrow> outcome \<Rightarrow> clock \<Rightarrow> chat_state \<Rightarrow> chat_state" where
  "handleSubmit_resume input out clk s =
     (case out of
        Inr response \<Rightarrow>
          s\<lparr>messages := messages s @ [userMessage (fst clk) input, aiMessage (snd clk) response],
            inputValue := [],
            conversationId := Some (conversation_id response),
            loading := False\<rparr>
      | Inl e \<Rightarrow>
          (case handleError e s of
             (errorMessage, s1) \<Rightarrow>
               s1\<lparr>messages := messages s1 @ [errorMsg (fst clk) errorMessage],
                  loading := False\<rparr>))"

definition handleSubmit :: "chat_state \<Rightarrow> outcome \<Rightarrow> clock \<Rightarrow> generate_call option \<times> chat_state" where
  "handleSubmit s out clk =
     (case handleSubmit_begin s of
        None \<Rightarrow> (None, s)
      | Some (call, s1) \<Rightarrow> (Some call, handleSubmit_resume (inputValue s) out clk s1))"

text \<open>The input's \<open>onChange\<close>.\<close>

definition onChange :: "jsstring \<Rightarrow> chat_state \<Rightarrow> chat_state" where
  "onChange v s = s\<lparr>inputValue := v\<rparr>"

subsection \<open>Sessions\<close>

text \<open>
  A session is the sequence of events a mounted component sees, each request settling
  before the next event, with the outcome and the clock readings the environment gave it.
\<close>

datatype event =
  Change jsstring
| Submit outcome clock
| Navigate "jsstring option" outcome clock

fun step :: "chat_state \<Rightarrow> event \<Rightarrow> chat_state" where
  "step s (Change v) = onChange v s"
| "step s (Submit out clk) = snd (handleSubmit s out clk)"
| "step s (Navigate q out clk) = snd (onLocationState q s out clk)"

definition run :: "event list \<Rightarrow> chat_state" where
  "run evs = foldl step init evs"

subsection \<open>Reading a decimal rendering back\<close>

text \<open>
  The number a string of decimal digits denotes. It is not part of the component; it
  states what the rendering \<open>toString\<close> means.
\<close>

definition decimal_value :: "jsstring \<Rightarrow> nat" where
  "decimal_value cs = foldl (\<lambda>a c. 10 * a + (unat c - 48)) 0 cs"

subsection \<open>Example data\<close>

text \<open>
  A response with three citations: one without a title, one with a title, one whose title
  is the empty string.
\<close>

definition response0 :: Response where
  "response0 =
     \<lparr>conversation_id = ascii ''c1'', answer = ascii ''ok'',
      citations =
        [\<lparr>number_c = 1, title_c = None, url_c = ascii ''u1''\<rparr>,
         \<lparr>number_c = 2, title_c = Some (ascii ''T''), url_c = ascii ''u2''\<rparr>,
         \<lparr>number_c = 3, title_c = Some [], url_c = ascii ''u3''\<rparr>]\<rparr>"

section \<open>Properties\<close>

subsection \<open>The guard of handleSubmit\<close>

text \<open>
  The trimmed string is empty exactly when every code unit of the string is whitespace
  (in particular when the string is empty).
\<close>

lemma trim_eq_Nil: "trim s = [] \<longleftrightarrow> list_all is_whitespace s"
proof
  assume "trim s = []"
  then have "dropWhile is_whitespace (rev (dropWhile is_whitespace s)) = []"
    by (simp add: trim_def)
  then have all: "\<forall>c \<in> set (dropWhile is_whitespace s). is_whitespace c"
    by simp
  have "dropWhile is_whitespace s = []"
  proof (rule ccontr)
    assume ne: "dropWhile is_whitespace s \<noteq> []"
    then have "\<not> is_whitespace (hd (dropWhile is_whitespace s))"
      by (rule hd_dropWhile)
    moreover from ne have "hd (dropWhile is_whitespace s) \<in> set (dropWhile is_whitespace s)"
      by simp
    ultimately show False using all by blast
  qed
  then show "list_all is_whitespace s"
    by (simp add: list_all_iff)
next
  assume "list_all is_whitespace s"
  then have d: "dropWhile is_whitespace s = []"
    by (simp add: list_all_iff)
  show "trim s = []"
    unfolding trim_def d by simp
qed

lemma handleSubmit_begin_guard:
  "handleSubmit_begin s =
     (if list_all is_whitespace (inputValue s) \<or> loading s then None
      else Some (GenerateWith (inputValue s) (conversationId s),
                 s\<lparr>loading := True, error_s := None\<rparr>))"
  by (simp add: handleSubmit_begin_def truthy_def trim_eq_Nil)

lemma handleSubmit_idle:
  assumes "\<not> list_all is_whitespace (inputValue s)" and "\<not> loading s"
  shows "handleSubmit s out clk =
           (Some (GenerateWith (inputValue s) (conversationId s)),
            handleSubmit_resume (inputValue s) out clk (s\<lparr>loading := True, error_s := None\<rparr>))"
  using assms by (simp add: handleSubmit_def handleSubmit_begin_guard)

subsection \<open>A successful submission\<close>

text \<open>
  C1. A query that is not blank, submitted while no request is pending, whose generate call
  succeeds: the transcript grows by exactly two messages, first a user message whose
  content is the submitted query, then an assistant message whose content is the answer
  and whose sources are as many as the response has citations.
\<close>

theorem submit_success_appends_pair:
  assumes "\<not> list_all is_whitespace (inputValue s)" and "\<not> loading s"
  shows "\<exists>u a srcs.
           messages (snd (handleSubmit s (Inr response) clk)) = messages s @ [u, a] \<and>
           type_m u = user \<and> content u = inputValue s \<and>
           type_m a = assistant \<and> content a = answer response \<and>
           sources a = Some srcs \<and> length srcs = length (citations response)"
  using assms
  by (simp add: handleSubmit_idle handleSubmit_resume_def userMessage_def aiMessage_def)

theorem submit_success_appends_pair_witness:
  "\<exists>u a srcs.
     messages (snd (handleSubmit (onChange (ascii ''hi'') init) (Inr response0) (1000, 1000)))
       = messages (onChange (ascii ''hi'') init) @ [u, a] \<and>
     type_m u = user \<and> content u = inputValue (onChange (ascii ''hi'') init) \<and>
     type_m a = assistant \<and> content a = answer response0 \<and>
     sources a = Some srcs \<and> length srcs = length (citations response0)"
  using submit_success_appends_pair [of "onChange (ascii ''hi'') init" response0 "(1000, 1000)"]
  by (simp add: onChange_def init_def ascii_def is_whitespace_def)

subsection \<open>Failure of a request\<close>

text \<open>
  What the continuation of \<open>handleSubmit\<close> does when the call is rejected, on whatever
  state the component has then, and what \<open>handleError\<close> returns for each kind of thrown
  value.
\<close>

lemma handleSubmit_resume_failure:
  "handleSubmit_resume q (Inl e) clk s =
     s\<lparr>error_s := Some (fst (handleError e s)),
       messages := messages s @
         [\<lparr>id_m = toString (fst clk), type_m = error, content = fst (handleError e s),
           sources = None\<rparr>],
       loading := False\<rparr>"
  by (simp add: handleSubmit_resume_def handleError_def errorMsg_def Let_def)

lemma handleError_cases:
  "fst (handleError (APIError m) s) = ascii ''API Error: '' @ m"
  "fst (handleError (NetworkError m) s) = ascii ''Network Error: '' @ m"
  "fst (handleError (Error m) s) = m"
  "fst (handleError NonError s) = ascii ''An unexpected error occurred''"
  by (simp_all add: handleError_def Let_def)

lemma handleError_message_any_state: "fst (handleError e s) = fst (handleError e s')"
  by (simp add: handleError_def Let_def)

lemma handleError_state: "snd (handleError e s) = s\<lparr>error_s := Some (fst (handleError e s))\<rparr>"
  by (simp add: handleError_def Let_def)

subsection \<open>The conversation identifier\<close>




subsection \<open>What a failed request leaves\<close>

text \<open>
  The \<open>catch\<close> branch of \<open>handleInitialQuery\<close> does not append: it sets the transcript to
  the one error message.
\<close>

lemma handleInitialQuery_resume_failure:
  "messages (handleInitialQuery_resume q (Inl e) clk s) =
     [\<lparr>id_m = toString (fst clk), type_m = error, content = fst (handleError e s),
       sources = None\<rparr>]"
  by (simp add: handleInitialQuery_resume_def handleError_def errorMsg_def Let_def)

text \<open>
  C3 as stated fails for a failed initial query: after a successful exchange has put a
  user and an assistant message in the transcript, an initial query whose call is
  rejected leaves the error message alone in the transcript, so nothing was appended.
\<close>

theorem failed_initial_query_replaces_transcript:
  "map type_m (messages (run [Change (ascii ''hi''), Submit (Inr response0) (1000, 1000)]))
     = [user, assistant] \<and>
   messages (run [Change (ascii ''hi''), Submit (Inr response0) (1000, 1000),
                  Navigate (Some (ascii ''more'')) (Inl (APIError (ascii ''rate limited'')))
                    (2000, 2000)])
     = [\<lparr>id_m = ascii ''2000'', type_m = error, content = ascii ''API Error: rate limited'',
         sources = None\<rparr>]"
  by (simp add: run_def onChange_def init_def handleSubmit_def handleSubmit_begin_def
      handleSubmit_resume_def trim_def truthy_def is_whitespace_def ascii_def response0_def
      onLocationState_def handleInitialQuery_def handleInitialQuery_begin_def
      handleInitialQuery_resume_def handleError_def errorMsg_def userMessage_def aiMessage_def
      toString_def digits.simps digit_def Let_def)

text \<open>
  C3, as the code has it. The thrown value of a failed request is classified into one
  string, by its kind, the same whatever the state. A failed manual submission appends
  exactly one message of role error with that string as content to the transcript; a
  failed initial query sets the transcript to exactly one such message. Both hold for the
  continuation on any state. For an application error with message \<open>rate limited\<close> the
  string is \<open>API Error: rate limited\<close>, which contains that text.
\<close>

theorem failed_request_leaves_classified_error:
  assumes "\<not> list_all is_whitespace (inputValue s)" and "\<not> loading s"
  shows "\<exists>msg.
           ((\<exists>m. e = APIError m \<and> msg = ascii ''API Error: '' @ m) \<or>
            (\<exists>m. e = NetworkError m \<and> msg = ascii ''Network Error: '' @ m) \<or>
            (\<exists>m. e = Error m \<and> msg = m) \<or>
            (e = NonError \<and> msg = ascii ''An unexpected error occurred'')) \<and>
           messages (snd (handleSubmit s (Inl e) clk)) =
             messages s @
               [\<lparr>id_m = toString (fst clk), type_m = error, content = msg, sources = None\<rparr>] \<and>
           messages (handleSubmit_resume q (Inl e) clk t) =
             messages t @
               [\<lparr>id_m = toString (fst clk), type_m = error, content = msg, sources = None\<rparr>] \<and>
           messages (snd (handleInitialQuery q t (Inl e) clk)) =
             [\<lparr>id_m = toString (fst clk), type_m = error, content = msg, sources = None\<rparr>] \<and>
           messages (handleInitialQuery_resume q (Inl e) clk t) =
             [\<lparr>id_m = toString (fst clk), type_m = error, content = msg, sources = None\<rparr>] \<and>
           (e = APIError (ascii ''rate limited'') \<longrightarrow>
              msg = ascii ''API Error: rate limited'' \<and> sublist (ascii ''rate limited'') msg)"
proof -
  let ?msg = "fst (handleError e s)"
  let ?m = "\<lparr>id_m = toString (fst clk), type_m = error, content = ?msg, sources = None\<rparr>"
  have cls: "(\<exists>m. e = APIError m \<and> ?msg = ascii ''API Error: '' @ m) \<or>
            (\<exists>m. e = NetworkError m \<and> ?msg = ascii ''Network Error: '' @ m) \<or>
            (\<exists>m. e = Error m \<and> ?msg = m) \<or>
            (e = NonError \<and> ?msg = ascii ''An unexpected error occurred'')"
    by (cases e) (simp_all add: handleError_cases)
  have app: "messages (snd (handleSubmit s (Inl e) clk)) = messages s @ [?m]"
    using assms
    by (simp add: handleSubmit_idle handleSubmit_resume_failure
        handleError_message_any_state [of e "s\<lparr>loading := True, error_s := None\<rparr>" s])
  have app': "messages (handleSubmit_resume q (Inl e) clk t) = messages t @ [?m]"
    by (simp add: handleSubmit_resume_failure handleError_message_any_state [of e t s])
  have rep': "messages (handleInitialQuery_resume q (Inl e) clk t) = [?m]"
    by (simp add: handleInitialQuery_resume_failure handleError_message_any_state [of e t s])
  have rep: "messages (snd (handleInitialQuery q t (Inl e) clk)) = [?m]"
    by (simp add: handleInitialQuery_def handleInitialQuery_begin_def
        handleInitialQuery_resume_failure
        handleError_message_any_state [of e "t\<lparr>loading := True, error_s := None\<rparr>" s])
  have rl: "?msg = ascii ''API Error: rate limited'' \<and> sublist (ascii ''rate limited'') ?msg"
    if "e = APIError (ascii ''rate limited'')"
  proof -
    have m: "?msg = ascii ''API Error: '' @ ascii ''rate limited''"
      using that by (simp add: handleError_cases)
    then have "sublist (ascii ''rate limited'') ?msg"
      by (metis sublist_appendI append_Nil2)
    moreover have "?msg = ascii ''API Error: rate limited''"
      using m by (simp add: ascii_def)
    ultimately show ?thesis by simp
  qed
  show ?thesis
    using cls app app' rep rep' rl by blast
qed

theorem failed_request_leaves_classified_error_witness:
  "\<exists>msg.
     msg = ascii ''API Error: rate limited'' \<and> sublist (ascii ''rate limited'') msg \<and>
     messages (snd (handleSubmit (onChange (ascii ''hi'') init)
        (Inl (APIError (ascii ''rate limited''))) (1000, 1000))) =
       messages (onChange (ascii ''hi'') init) @
         [\<lparr>id_m = toString 1000, type_m = error, content = msg, sources = None\<rparr>] \<and>
     messages (snd (handleInitialQuery (ascii ''more'')
        (snd (handleSubmit (onChange (ascii ''hi'') init) (Inr response0) (900, 900)))
        (Inl (APIError (ascii ''rate limited''))) (1000, 1000))) =
       [\<lparr>id_m = toString 1000, type_m = error, content = msg, sources = None\<rparr>]"
proof -
  have h1: "\<not> list_all is_whitespace (inputValue (onChange (ascii ''hi'') init))"
    by (simp add: onChange_def init_def ascii_def is_whitespace_def)
  have h2: "\<not> loading (onChange (ascii ''hi'') init)"
    by (simp add: onChange_def init_def)
  from failed_request_leaves_classified_error [OF h1 h2,
      where e = "APIError (ascii ''rate limited'')" and clk = "(1000, 1000)"
      and q = "ascii ''more''"
      and t = "snd (handleSubmit (onChange (ascii ''hi'') init) (Inr response0) (900, 900))"]
  obtain msg where
    "messages (snd (handleSubmit (onChange (ascii ''hi'') init)
        (Inl (APIError (ascii ''rate limited''))) (1000, 1000))) =
       messages (onChange (ascii ''hi'') init) @
         [\<lparr>id_m = toString (fst (1000 :: int, 1000 :: int)), type_m = error, content = msg,
           sources = None\<rparr>]"
    "messages (snd (handleInitialQuery (ascii ''more'')
        (snd (handleSubmit (onChange (ascii ''hi'') init) (Inr response0) (900, 900)))
        (Inl (APIError (ascii ''rate limited''))) (1000, 1000))) =
       [\<lparr>id_m = toString (fst (1000 :: int, 1000 :: int)), type_m = error, content = msg,
         sources = None\<rparr>]"
    "msg = ascii ''API Error: rate limited''" "sublist (ascii ''rate limited'') msg"
    by blast
  then show ?thesis
    by (intro exI [of _ msg]) (simp only: fst_conv simp_thms)
qed

text \<open>
  C10. A manual submission whose call fails: the transcript grows by the one
  error message and nothing else (so the query is not appended as a user message), the
  input keeps its value, and the stored conversation identifier is unchanged.
\<close>

theorem failed_submit_only_appends_error:
  assumes "\<not> list_all is_whitespace (inputValue s)" and "\<not> loading s"
  shows "\<exists>m. messages (snd (handleSubmit s (Inl e) clk)) = messages s @ [m] \<and>
           type_m m = error \<and> content m = fst (handleError e s) \<and>
           inputValue (snd (handleSubmit s (Inl e) clk)) = inputValue s \<and>
           conversationId (snd (handleSubmit s (Inl e) clk)) = conversationId s"
  using assms
  by (simp add: handleSubmit_idle handleSubmit_resume_failure
      handleError_message_any_state [of e "s\<lparr>loading := True, error_s := None\<rparr>" s])

theorem failed_submit_only_appends_error_witness:
  "\<exists>m. messages (snd (handleSubmit (onChange (ascii ''hi'') init) (Inl (NetworkError (ascii ''offline''))) (1000, 1000)))
         = [m] \<and>
       type_m m = error \<and> content m = ascii ''Network Error: offline'' \<and>
       inputValue (snd (handleSubmit (onChange (ascii ''hi'') init) (Inl (NetworkError (ascii ''offline''))) (1000, 1000)))
         = ascii ''hi'' \<and>
       conversationId (snd (handleSubmit (onChange (ascii ''hi'') init) (Inl (NetworkError (ascii ''offline''))) (1000, 1000)))
         = None"
  using failed_submit_only_appends_error [of "onChange (ascii ''hi'') init"
      "NetworkError (ascii ''offline'')" "(1000, 1000)"]
  by (simp add: onChange_def init_def ascii_def is_whitespace_def handleError_cases)

subsection \<open>The guard against a second submission\<close>

text \<open>
  C4. A submission attempted while the loading flag is true returns at the guard: no call
  is made and the state, hence the transcript, is unchanged.
\<close>

theorem pending_submit_is_noop:
  assumes "loading s"
  shows "handleSubmit_begin s = None \<and> handleSubmit s out clk = (None, s)"
  using assms by (simp add: handleSubmit_def handleSubmit_begin_def)

theorem pending_submit_is_noop_witness:
  "handleSubmit_begin (onChange (ascii ''hi'') init) =
     Some (GenerateWith (ascii ''hi'') None,
           \<lparr>messages = [], inputValue = ascii ''hi'', conversationId = None, loading = True,
            error_s = None\<rparr>) \<and>
   handleSubmit_begin
     \<lparr>messages = [], inputValue = ascii ''hi'', conversationId = None, loading = True,
      error_s = None\<rparr> = None \<and>
   handleSubmit
     \<lparr>messages = [], inputValue = ascii ''hi'', conversationId = None, loading = True,
      error_s = None\<rparr> (Inr response0) (1000, 1000)
     = (None, \<lparr>messages = [], inputValue = ascii ''hi'', conversationId = None, loading = True,
               error_s = None\<rparr>)"
  using pending_submit_is_noop [of
      "\<lparr>messages = [], inputValue = ascii ''hi'', conversationId = None, loading = True,
        error_s = None\<rparr>" "Inr response0" "(1000, 1000)"]
    handleSubmit_begin_guard [of "onChange (ascii ''hi'') init"]
  by (simp add: onChange_def init_def ascii_def is_whitespace_def)

subsection \<open>Manual submission: what is sent, appended and cleared\<close>

text \<open>
  C5 as stated fails when the call is rejected: the input \<open>hi\<close> is sent, but the
  transcript gains only the error message and the input field still holds \<open>hi\<close>.
\<close>

theorem failed_submit_keeps_input:
  "snd (handleSubmit (onChange (ascii ''hi'') init)
          (Inl (APIError (ascii ''rate limited''))) (1000, 1000)) =
     \<lparr>messages =
        [\<lparr>id_m = ascii ''1000'', type_m = error, content = ascii ''API Error: rate limited'',
          sources = None\<rparr>],
      inputValue = ascii ''hi'', conversationId = None, loading = False,
      error_s = Some (ascii ''API Error: rate limited'')\<rparr>"
  by (simp add: onChange_def init_def handleSubmit_def handleSubmit_begin_def
      handleSubmit_resume_def handleError_def errorMsg_def trim_def truthy_def
      is_whitespace_def ascii_def toString_def digits.simps digit_def Let_def)

text \<open>
  C5, as the code has it. A manual submission of a query that is not blank, while no
  request is pending, sends the input as the query of the call; when the call succeeds
  the input is appended to the transcript as a user message (followed by the assistant
  message) and the input field is cleared.
\<close>

theorem submit_sends_and_on_success_clears:
  assumes "\<not> list_all is_whitespace (inputValue s)" and "\<not> loading s"
  shows "map_option query_of (fst (handleSubmit s out clk)) = Some (inputValue s) \<and>
         (\<exists>a. messages (snd (handleSubmit s (Inr r) clk)) =
            messages s @
              [\<lparr>id_m = toString (fst clk), type_m = user, content = inputValue s,
                sources = None\<rparr>, a]) \<and>
         inputValue (snd (handleSubmit s (Inr r) clk)) = []"
  using assms
  by (simp add: handleSubmit_idle handleSubmit_resume_def userMessage_def)

theorem submit_sends_and_on_success_clears_witness:
  "map_option query_of (fst (handleSubmit (onChange (ascii ''hi'') init) (Inr response0) (1000, 1000)))
     = Some (ascii ''hi'') \<and>
   (\<exists>a. messages (snd (handleSubmit (onChange (ascii ''hi'') init) (Inr response0) (1000, 1000))) =
      [\<lparr>id_m = toString 1000, type_m = user, content = ascii ''hi'', sources = None\<rparr>, a]) \<and>
   inputValue (snd (handleSubmit (onChange (ascii ''hi'') init) (Inr response0) (1000, 1000))) = []"
  using submit_sends_and_on_success_clears [of "onChange (ascii ''hi'') init"
      "Inr response0" "(1000, 1000)" response0]
  by (simp add: onChange_def init_def ascii_def is_whitespace_def)

subsection \<open>The loading flag\<close>

text \<open>
  C6. When a request completes, by success or by failure, the loading flag is false: for
  the continuations of both handlers on any state, and for a whole manual submission that
  made a call.
\<close>

theorem loading_cleared_on_completion:
  "loading (handleSubmit_resume q out clk s) = False \<and>
   loading (handleInitialQuery_resume q out clk s) = False \<and>
   loading (snd (handleInitialQuery q s out clk)) = False \<and>
   (fst (handleSubmit s out clk) \<noteq> None \<longrightarrow> loading (snd (handleSubmit s out clk)) = False)"
proof -
  have a: "loading (handleSubmit_resume q' out clk t) = False" for q' t
    by (cases out) (simp_all add: handleSubmit_resume_def handleError_def Let_def)
  have b: "loading (handleInitialQuery_resume q' out clk t) = False" for q' t
    by (cases out) (simp_all add: handleInitialQuery_resume_def handleError_def Let_def)
  have c: "loading (snd (handleInitialQuery q s out clk)) = False"
    by (simp add: handleInitialQuery_def handleInitialQuery_begin_def b)
  have d: "loading (snd (handleSubmit s out clk)) = False" if "fst (handleSubmit s out clk) \<noteq> None"
    using that by (simp add: handleSubmit_def a split: option.splits prod.splits)
  show ?thesis using a b c d by blast
qed

theorem loading_cleared_on_completion_witness:
  "fst (handleSubmit (onChange (ascii ''hi'') init) (Inl (APIError (ascii ''rate limited''))) (1000, 1000)) \<noteq> None \<and>
   loading (snd (handleSubmit (onChange (ascii ''hi'') init)
      (Inl (APIError (ascii ''rate limited''))) (1000, 1000))) = False \<and>
   loading (snd (handleInitialQuery (ascii ''hi'') init (Inr response0) (1000, 1000))) = False"
  using loading_cleared_on_completion [of "ascii ''hi''"
      "Inl (APIError (ascii ''rate limited''))" "(1000, 1000)" "onChange (ascii ''hi'') init"]
    loading_cleared_on_completion [of "ascii ''hi''" "Inr response0" "(1000, 1000)" init]
    handleSubmit_idle [of "onChange (ascii ''hi'') init"]
  by (simp add: onChange_def init_def ascii_def is_whitespace_def)

subsection \<open>Blank queries\<close>

text \<open>
  C7 as stated fails for an initial query: the effect tests the initial query for
  truthiness, not for blankness, so an initial query of one space is sent and answered.
\<close>

theorem whitespace_initial_query_is_sent:
  "list_all is_whitespace (ascii '' '') \<and>
   fst (onLocationState (Some (ascii '' '')) init (Inr response0) (1000, 1000))
     = Some (Generate (ascii '' '')) \<and>
   map type_m (messages (snd (onLocationState (Some (ascii '' '')) init (Inr response0) (1000, 1000))))
     = [user, assistant]"
  by (simp add: onLocationState_def truthy_def ascii_def is_whitespace_def
      handleInitialQuery_def handleInitialQuery_begin_def handleInitialQuery_resume_def
      userMessage_def aiMessage_def)

text \<open>
  C7, as the code has it. A manual submission of an input that is empty or consists of
  whitespace only is a no-op: no call, no change of state. An initial query is skipped,
  in any state, when it is absent or the empty string; every non-empty initial query,
  blank or not, is handed to \<open>handleInitialQuery\<close> and sent as it is.
\<close>

theorem blank_submit_is_noop:
  "(list_all is_whitespace (inputValue s) \<longrightarrow>
      handleSubmit_begin s = None \<and> handleSubmit s out clk = (None, s)) \<and>
   onLocationState None t out clk = (None, t) \<and>
   onLocationState (Some []) t out clk = (None, t) \<and>
   (q \<noteq> [] \<longrightarrow>
      onLocationState (Some q) t out clk = handleInitialQuery q t out clk \<and>
      fst (onLocationState (Some q) t out clk) = Some (Generate q))"
  by (simp add: handleSubmit_def handleSubmit_begin_guard onLocationState_def truthy_def
      handleInitialQuery_def handleInitialQuery_begin_def)

theorem blank_submit_is_noop_witness:
  "handleSubmit (onChange [0x20, 0x09, 0x3000] init) (Inr response0) (1000, 1000)
     = (None, onChange [0x20, 0x09, 0x3000] init) \<and>
   handleSubmit init (Inr response0) (1000, 1000) = (None, init) \<and>
   fst (onLocationState (Some [0x20, 0x09, 0x3000]) init (Inr response0) (1000, 1000))
     = Some (Generate [0x20, 0x09, 0x3000])"
  using blank_submit_is_noop [where s = "onChange [0x20, 0x09, 0x3000] init"
      and out = "Inr response0" and clk = "(1000, 1000)" and q = "[0x20, 0x09, 0x3000]"
      and t = init]
    blank_submit_is_noop [where s = init and out = "Inr response0" and clk = "(1000, 1000)"]
  by (simp add: onChange_def init_def is_whitespace_def)

subsection \<open>Titles of sources\<close>




subsection \<open>Message identifiers\<close>

text \<open>
  The decimal rendering denotes the number rendered, so two renderings are equal only
  when the numbers are.
\<close>

lemma unat_digit: "d < 10 \<Longrightarrow> unat (digit d) = 48 + d"
  unfolding digit_def by (simp only: unat_of_nat) simp

lemma decimal_value_digits: "decimal_value (digits n) = n"
proof (induction n rule: digits.induct)
  case (1 n)
  show ?case
  proof (cases "n < 10")
    case True
    then show ?thesis
      by (subst digits.simps) (simp add: decimal_value_def unat_digit)
  next
    case False
    with "1" have ih: "decimal_value (digits (n div 10)) = n div 10"
      by simp
    have "digits n = digits (n div 10) @ [digit (n mod 10)]"
      using False by (subst digits.simps) simp
    then have "decimal_value (digits n) = 10 * decimal_value (digits (n div 10)) + n mod 10"
      by (simp add: decimal_value_def unat_digit)
    with ih show ?thesis by simp
  qed
qed

lemma digits_inject: "digits a = digits b \<Longrightarrow> a = b"
  by (metis decimal_value_digits)

lemma digits_head: "digits n \<noteq> [] \<and> hd (digits n) \<noteq> 45"
proof (induction n rule: digits.induct)
  case (1 n)
  show ?case
  proof (cases "n < 10")
    case True
    then have "unat (digit n) \<noteq> unat (45 :: code_unit)"
      by (simp add: unat_digit)
    then have "digit n \<noteq> 45" by auto
    with True show ?thesis
      by (subst digits.simps, subst digits.simps) simp
  next
    case False
    with "1" have "digits (n div 10) \<noteq> [] \<and> hd (digits (n div 10)) \<noteq> 45"
      by simp
    moreover have "digits n = digits (n div 10) @ [digit (n mod 10)]"
      using False by (subst digits.simps) simp
    ultimately show ?thesis by simp
  qed
qed

lemma toString_inject: "toString a = toString b \<Longrightarrow> a = b"
proof -
  assume eq: "toString a = toString b"
  have minus: "ascii ''-'' = [45]"
    by (simp add: ascii_def)
  consider "a < 0" "b < 0" | "a < 0" "\<not> b < 0" | "\<not> a < 0" "b < 0" | "\<not> a < 0" "\<not> b < 0"
    by blast
  then show "a = b"
  proof cases
    case 1
    with eq have "digits (nat (- a)) = digits (nat (- b))"
      by (simp add: toString_def)
    then have "nat (- a) = nat (- b)" by (rule digits_inject)
    with 1 show ?thesis by simp
  next
    case 2
    with eq have "45 # digits (nat (- a)) = digits (nat b)"
      by (simp add: toString_def minus)
    then have "hd (digits (nat b)) = 45"
      by (metis list.sel(1))
    with digits_head [of "nat b"] show ?thesis by simp
  next
    case 3
    with eq have "digits (nat a) = 45 # digits (nat (- b))"
      by (simp add: toString_def minus)
    then have "hd (digits (nat a)) = 45"
      by (metis list.sel(1))
    with digits_head [of "nat a"] show ?thesis by simp
  next
    case 4
    with eq have "digits (nat a) = digits (nat b)"
      by (simp add: toString_def)
    then have "nat a = nat b" by (rule digits_inject)
    with 4 show ?thesis by simp
  qed
qed

text \<open>
  The two identifiers of a pair built from one clock reading differ, and the assistant's
  identifier is the user's reading plus one exactly when the second reading of the clock
  equals the first.
\<close>

lemma pair_ids_differ: "id_m (userMessage t q) \<noteq> id_m (aiMessage t r)"
proof
  assume "id_m (userMessage t q) = id_m (aiMessage t r)"
  then have "toString t = toString (t + 1)"
    by (simp add: userMessage_def aiMessage_def)
  then have "t = t + 1" by (rule toString_inject)
  then show False by simp
qed

lemma assistant_id_offset:
  "id_m (aiMessage t2 r) = toString (t1 + 1) \<longleftrightarrow> t2 = t1"
proof
  assume "id_m (aiMessage t2 r) = toString (t1 + 1)"
  then have "toString (t2 + 1) = toString (t1 + 1)"
    by (simp add: aiMessage_def)
  then have "t2 + 1 = t1 + 1" by (rule toString_inject)
  then show "t2 = t1" by simp
next
  assume "t2 = t1"
  then show "id_m (aiMessage t2 r) = toString (t1 + 1)"
    by (simp add: aiMessage_def)
qed

text \<open>
  C9 fails on the code. When the clock advances between the two readings of one
  submission (1000, then 1001), the assistant's identifier is the user's plus two. When a
  submission that succeeds at reading 1000 is followed by one that fails at reading 1001,
  the assistant message and the error message share the identifier \<open>1001\<close>.
\<close>

theorem message_ids_collide:
  "map id_m (messages (run [Change (ascii ''a''), Submit (Inr response0) (1000, 1001)]))
     = [ascii ''1000'', ascii ''1002''] \<and>
   map id_m (messages (run
     [Change (ascii ''a''), Submit (Inr response0) (1000, 1000),
      Change (ascii ''b''), Submit (Inl (APIError (ascii ''rate limited''))) (1001, 1001)]))
     = [ascii ''1000'', ascii ''1001'', ascii ''1001'']"
  by (simp add: run_def onChange_def init_def handleSubmit_def handleSubmit_begin_def
      handleSubmit_resume_def handleError_def errorMsg_def userMessage_def aiMessage_def
      trim_def truthy_def is_whitespace_def ascii_def toString_def digits.simps digit_def Let_def)

end
